theory Spec2Isabelle
  imports Complex_Main "HOL-Library.Log_Nat"
begin

section \<open>Scalable textures: data model\<close>

text \<open>
  A shallow embedding of \<^verbatim>\<open>vispy/visuals/_scalable_textures.py\<close>: the mixins that make
  a texture aware of colour limits, with scaling either on the CPU
  (\<^verbatim>\<open>CPUScaledTextureMixIn\<close>) or on the GPU (\<^verbatim>\<open>GPUScaledTextureMixin\<close>).

  Python exceptions are values of type \<open>error\<close>. A method that mutates the texture
  returns its outcome together with the texture as the call leaves it, so that the state
  after a raise is part of the model.
\<close>

datatype error =
    ValueError_clim_str          \<comment> \<open>\<^verbatim>\<open>ValueError('clim must be "auto" if a string')\<close>\<close>
  | ValueError_clim_two          \<comment> \<open>\<^verbatim>\<open>ValueError('clim must have two elements')\<close>\<close>
  | ValueError_no_copy           \<comment> \<open>\<^verbatim>\<open>ValueError("Data must be of floating type for no copying to occur.")\<close>\<close>
  | ValueError_tex_format        \<comment> \<open>\<^verbatim>\<open>ValueError("Can't determine internal texture format for ...")\<close>\<close>
  | ValueError_zero_size         \<comment> \<open>NumPy: reduction of a zero-size array without identity\<close>
  | ValueError_iinfo             \<comment> \<open>NumPy: \<^verbatim>\<open>np.iinfo\<close> of a type that is not an integer type\<close>
  | RuntimeError_format_locked   \<comment> \<open>\<^verbatim>\<open>RuntimeError("'internalformat' needs to change but ...")\<close>\<close>
  | ValueError_unpack            \<comment> \<open>Python: wrong number of values to unpack\<close>
  | TypeError
  | IndexError
  | AttributeError
  | UnboundLocalError

text \<open>
  The stored colour limits \<^verbatim>\<open>self._clim\<close>: the string \<^verbatim>\<open>'auto'\<close> or a pair. The field
  is \<open>None\<close> until it is first set.
\<close>

datatype clim = Auto | Range real real

text \<open>
  What a caller can hand to \<^verbatim>\<open>set_clim\<close>: a string, a sequence of numbers of any
  length, or an object that cannot be unpacked at all.
\<close>

datatype clim_arg = Str string | Seq "real list" | NotIterable

text \<open>
  Element types of arrays (\<^verbatim>\<open>numpy.dtype\<close>): booleans, the signed and unsigned
  integers of 8 to 64 bits, and 32- and 64-bit floats.
\<close>

datatype dtype =
    Bool8
  | Int8 | Int16 | Int32 | Int64
  | UInt8 | UInt16 | UInt32 | UInt64
  | Float32 | Float64

text \<open>
  An array: element type, shape, and the elements in row-major order. Elements are
  real numbers; infinities and NaN are outside the model, and so is the exponent range
  of the floating-point types (no overflow, no underflow).
\<close>

record ndarray =
  arr_dtype :: dtype
  arr_shape :: "nat list"
  arr_elems :: "real list"

text \<open>
  The texture object: the attributes of the mixins, and what the model keeps of the
  underlying \<^verbatim>\<open>Texture2D\<close>/\<^verbatim>\<open>Texture3D\<close> (its rank \<^verbatim>\<open>_ndim\<close>, its
  \<^verbatim>\<open>internalformat\<close>, its shape, and the buffers handed to \<^verbatim>\<open>set_data\<close>).
  Warnings issued through \<^verbatim>\<open>warnings.warn\<close> are appended to \<open>tex_warnings\<close>.
\<close>

datatype warning = Warn_auto_without_data
  \<comment> \<open>\<^verbatim>\<open>"'texture_format' set to 'auto' but no data provided. Falling back to CPU scaling."\<close>\<close>

record texture =
  tex_ndim :: nat
  tex_clim :: "clim option"
  tex_data_dtype :: "dtype option"
  tex_data_limits :: "(real \<times> real) option"
  tex_auto_texture_format :: bool
  tex_internalformat :: "string option"
  tex_shape :: "nat list"
  tex_uploads :: "ndarray list"
  tex_warnings :: "warning list"

section \<open>Colour limits: \<^verbatim>\<open>set_clim\<close>\<close>

text \<open>\<^verbatim>\<open>_ScaledTextureMixin.set_clim\<close>: set clim and return if a texture update is needed.\<close>

definition set_clim :: "clim_arg \<Rightarrow> texture \<Rightarrow> (error + bool) \<times> texture" where
  "set_clim c t =
     (case c of
        Str s \<Rightarrow>
          if s \<noteq> ''auto'' then (Inl ValueError_clim_str, t)
          else (Inr True, t\<lparr>tex_clim := Some Auto\<rparr>)
      | Seq xs \<Rightarrow>
          (case xs of
             [cmin, cmax] \<Rightarrow> (Inr False, t\<lparr>tex_clim := Some (Range cmin cmax)\<rparr>)
           | _ \<Rightarrow> (Inl ValueError_clim_two, t))
      | NotIterable \<Rightarrow> (Inl ValueError_clim_two, t))"

text \<open>\<^verbatim>\<open>CPUScaledTextureMixIn._clim_outside_data_limits\<close>.\<close>

definition clim_outside_data_limits :: "real \<Rightarrow> real \<Rightarrow> texture \<Rightarrow> bool" where
  "clim_outside_data_limits cmin cmax t =
     (case tex_data_limits t of
        None \<Rightarrow> False
      | Some (lo, hi) \<Rightarrow> cmin < lo \<or> cmax > hi)"

text \<open>\<^verbatim>\<open>CPUScaledTextureMixIn.set_clim\<close>, the override of the CPU strategy.\<close>

definition cpu_set_clim :: "clim_arg \<Rightarrow> texture \<Rightarrow> (error + bool) \<times> texture" where
  "cpu_set_clim c t =
     (case c of
        Str s \<Rightarrow>
          if s \<noteq> ''auto'' then (Inl ValueError_clim_str, t)
          else (Inr True, t\<lparr>tex_clim := Some Auto\<rparr>)
      | Seq xs \<Rightarrow>
          (case xs of
             [cmin, cmax] \<Rightarrow>
               (Inr (clim_outside_data_limits cmin cmax t),
                t\<lparr>tex_clim := Some (Range cmin cmax)\<rparr>)
           | _ \<Rightarrow> (Inl ValueError_clim_two, t))
      | NotIterable \<Rightarrow> (Inl ValueError_clim_two, t))"

text \<open>
  The arguments that the specification calls an invalid range: a string other than
  \<^verbatim>\<open>"auto"\<close>, or a value that does not unpack into exactly two elements.
\<close>

definition invalid_range_spec :: "clim_arg \<Rightarrow> bool" where
  "invalid_range_spec c =
     (case c of Str s \<Rightarrow> s \<noteq> ''auto'' | Seq xs \<Rightarrow> length xs \<noteq> 2 | NotIterable \<Rightarrow> True)"

text \<open>A fresh texture of rank 2 whose colour limits are \<^verbatim>\<open>'auto'\<close>, before any upload.\<close>

definition tex_auto2 :: texture where
  "tex_auto2 =
     \<lparr>tex_ndim = 2, tex_clim = Some Auto, tex_data_dtype = None, tex_data_limits = None,
      tex_auto_texture_format = False, tex_internalformat = None, tex_shape = [10, 10, 4],
      tex_uploads = [], tex_warnings = []\<rparr>"

section \<open>Floating-point rounding\<close>

text \<open>
  Conversion of a real number to a binary floating-point format with \<open>p\<close> significand
  bits, rounding to nearest, ties to even. \<open>float_exponent x\<close> is the integer \<open>e\<close>
  with \<open>2^e \<le> |x| < 2^(e+1)\<close>.
\<close>

definition float_exponent :: "real \<Rightarrow> int" where
  "float_exponent x =
     (if 1 \<le> \<bar>x\<bar> then int (floorlog 2 (nat \<lfloor>\<bar>x\<bar>\<rfloor>)) - 1
      else - int (floorlog 2 (nat (\<lceil>1 / \<bar>x\<bar>\<rceil> - 1))))"

definition round_half_even :: "real \<Rightarrow> int" where
  "round_half_even x =
     (let f = \<lfloor>x\<rfloor>; d = x - of_int f
      in if d < 1 / 2 then f else if 1 / 2 < d then f + 1 else if even f then f else f + 1)"

definition pow2 :: "int \<Rightarrow> real" where
  "pow2 e = (if 0 \<le> e then 2 ^ nat e else 1 / 2 ^ nat (- e))"

definition round_to_prec :: "nat \<Rightarrow> real \<Rightarrow> real" where
  "round_to_prec p x =
     (let u = pow2 (float_exponent x - (int p - 1))
      in of_int (round_half_even (x / u)) * u)"

text \<open>\<^verbatim>\<open>np.float32(x)\<close> and the rounding of 64-bit floats.\<close>

definition f32 :: "real \<Rightarrow> real" where
  "f32 = round_to_prec 24"

definition f64 :: "real \<Rightarrow> real" where
  "f64 = round_to_prec 53"




section \<open>Arrays\<close>

text \<open>\<^verbatim>\<open>np.issubdtype(dtype, np.floating)\<close>.\<close>

definition is_floating :: "dtype \<Rightarrow> bool" where
  "is_floating d = (d = Float32 \<or> d = Float64)"

text \<open>\<^verbatim>\<open>np.iinfo(dtype)\<close>: the least and greatest value of an integer type.\<close>

definition iinfo :: "dtype \<Rightarrow> error + int \<times> int" where
  "iinfo d =
     (case d of
        Int8 \<Rightarrow> Inr (- 128, 127)
      | Int16 \<Rightarrow> Inr (- 32768, 32767)
      | Int32 \<Rightarrow> Inr (- 2147483648, 2147483647)
      | Int64 \<Rightarrow> Inr (- 9223372036854775808, 9223372036854775807)
      | UInt8 \<Rightarrow> Inr (0, 255)
      | UInt16 \<Rightarrow> Inr (0, 65535)
      | UInt32 \<Rightarrow> Inr (0, 4294967295)
      | UInt64 \<Rightarrow> Inr (0, 18446744073709551615)
      | _ \<Rightarrow> Inl ValueError_iinfo)"



text \<open>\<^verbatim>\<open>np.min(data)\<close> and \<^verbatim>\<open>np.max(data)\<close>; both raise on an array without elements.\<close>

definition np_min :: "ndarray \<Rightarrow> error + real" where
  "np_min a = (if arr_elems a = [] then Inl ValueError_zero_size else Inr (Min (set (arr_elems a))))"

definition np_max :: "ndarray \<Rightarrow> error + real" where
  "np_max a = (if arr_elems a = [] then Inl ValueError_zero_size else Inr (Max (set (arr_elems a))))"

text \<open>
  The test \<^verbatim>\<open>data.ndim == n or data.shape[n] == 1\<close>; the index is out of range when
  the array has fewer than \<open>n\<close> dimensions.
\<close>

definition ndim_or_unit_axis :: "nat \<Rightarrow> ndarray \<Rightarrow> error + bool" where
  "ndim_or_unit_axis n data =
     (if length (arr_shape data) = n then Inr True
      else if n < length (arr_shape data) then Inr (arr_shape data ! n = 1)
      else Inl IndexError)"

text \<open>
  \<^verbatim>\<open>np.array(data, dtype=np.float32, copy=True)\<close> and \<^verbatim>\<open>data.astype(np.float32)\<close>:
  a new array whose elements are the old ones converted to 32-bit floats.
\<close>

definition astype_float32 :: "ndarray \<Rightarrow> ndarray" where
  "astype_float32 a = a\<lparr>arr_dtype := Float32, arr_elems := map f32 (arr_elems a)\<rparr>"

text \<open>
  The in-place operators \<^verbatim>\<open>data -= c\<close> and \<^verbatim>\<open>data /= c\<close> with a 32-bit float
  scalar \<open>c\<close>: each result is rounded to the array's element type. NumPy refuses to
  store the floating-point result in an array of integers. (The divisor is never zero
  where the module divides.)
\<close>

definition round_dtype :: "dtype \<Rightarrow> real \<Rightarrow> real" where
  "round_dtype d x = (if d = Float32 then f32 x else if d = Float64 then f64 x else x)"

definition isub :: "real \<Rightarrow> ndarray \<Rightarrow> error + ndarray" where
  "isub c a =
     (if is_floating (arr_dtype a)
      then Inr (a\<lparr>arr_elems := map (\<lambda>x. round_dtype (arr_dtype a) (x - c)) (arr_elems a)\<rparr>)
      else Inl TypeError)"

definition idiv :: "real \<Rightarrow> ndarray \<Rightarrow> error + ndarray" where
  "idiv c a =
     (if is_floating (arr_dtype a)
      then Inr (a\<lparr>arr_elems := map (\<lambda>x. round_dtype (arr_dtype a) (x / c)) (arr_elems a)\<rparr>)
      else Inl TypeError)"

text \<open>
  Arrays are Python objects that are passed by reference and may be changed in place.
  The heap is the list of the arrays that exist; a reference is an index into it, and a
  new array is put at the end.
\<close>

type_synonym heap = "ndarray list"

definition alloc :: "ndarray \<Rightarrow> heap \<Rightarrow> nat \<times> heap" where
  "alloc a h = (length h, h @ [a])"

section \<open>Shared mixin: channels and the representative array\<close>

text \<open>
  \<^verbatim>\<open>_ScaledTextureMixin._data_num_channels\<close>. \<open>data\<close> is \<open>None\<close> or an array,
  \<open>format\<close> is \<open>None\<close> or a string. When the rank is \<^verbatim>\<open>_ndim + 1\<close> the shape is
  not empty, so \<^verbatim>\<open>data.shape[-1]\<close> is its last entry.
\<close>

definition data_num_channels :: "texture \<Rightarrow> ndarray option \<Rightarrow> string option \<Rightarrow> nat" where
  "data_num_channels t data format =
     (if format = Some ''luminance'' then 1
      else case data of
        Some d \<Rightarrow> if length (arr_shape d) = tex_ndim t + 1 then last (arr_shape d) else 1
      | None \<Rightarrow> 4)"

text \<open>
  \<^verbatim>\<open>_ScaledTextureMixin._create_rep_array\<close>: an array of zeros of shape
  \<^verbatim>\<open>(10,) * _ndim + (num_channels,)\<close>, of the data's element type, or of type
  \<^verbatim>\<open>float32\<close> when there is no data.
\<close>

definition create_rep_array :: "texture \<Rightarrow> ndarray option \<Rightarrow> string option \<Rightarrow> ndarray" where
  "create_rep_array t data format =
     (let dt = (case data of Some d \<Rightarrow> arr_dtype d | None \<Rightarrow> Float32);
          num_channels = data_num_channels t data format;
          init_shape = replicate (tex_ndim t) 10 @ [num_channels]
      in \<lparr>arr_dtype = dt, arr_shape = init_shape,
          arr_elems = replicate (prod_list init_shape) 0\<rparr>)"

section \<open>GPU strategy: the internal format\<close>

text \<open>
  A texture format as the caller gives it: \<^verbatim>\<open>None\<close>, a string (a GL enum name or
  \<^verbatim>\<open>'auto'\<close>), or a NumPy element type.
\<close>

datatype tex_format = FmtNone | FmtStr string | FmtDtype dtype

text \<open>The class attribute \<^verbatim>\<open>_texture_dtype_format\<close>, a dictionary.\<close>

definition texture_dtype_format :: "dtype \<Rightarrow> string option" where
  "texture_dtype_format d =
     (case d of
        Float32 \<Rightarrow> Some ''r32f''
      | Float64 \<Rightarrow> Some ''r32f''
      | UInt8 \<Rightarrow> Some ''r8''
      | UInt16 \<Rightarrow> Some ''r16''
      | Int8 \<Rightarrow> Some ''r8''
      | Int16 \<Rightarrow> Some ''r16''
      | _ \<Rightarrow> None)"

text \<open>\<^verbatim>\<open>s.replace('r', 'rgba'[:num_channels])\<close> on a Python string.\<close>

definition replace_r :: "nat \<Rightarrow> string \<Rightarrow> string" where
  "replace_r num_channels s =
     concat (map (\<lambda>c. if c = CHR ''r'' then take num_channels ''rgba'' else [c]) s)"

text \<open>
  \<^verbatim>\<open>GPUScaledTextureMixin._handle_auto_texture_format\<close>. It warns when the format is
  \<^verbatim>\<open>'auto'\<close> and \<open>data\<close> is \<open>None\<close>; with data it sets
  \<^verbatim>\<open>_auto_texture_format\<close>.
\<close>

definition handle_auto_texture_format ::
  "tex_format \<Rightarrow> ndarray option \<Rightarrow> texture \<Rightarrow> tex_format \<times> texture" where
  "handle_auto_texture_format texture_format data t =
     (if texture_format = FmtStr ''auto'' then
        (case data of
           None \<Rightarrow> (FmtNone, t\<lparr>tex_warnings := tex_warnings t @ [Warn_auto_without_data]\<rparr>)
         | Some d \<Rightarrow> (FmtDtype (arr_dtype d), t\<lparr>tex_auto_texture_format := True\<rparr>))
      else (texture_format, t))"

text \<open>
  \<^verbatim>\<open>GPUScaledTextureMixin._get_gl_tex_format\<close>. The first test is the truth value of
  \<^verbatim>\<open>texture_format\<close> (false for \<^verbatim>\<open>None\<close> and for the empty string) and that it is
  not a string. The call of \<^verbatim>\<open>should_cast_to_f32\<close> there only warns; its result is
  dropped. \<^verbatim>\<open>None\<close> has no method \<^verbatim>\<open>replace\<close>.
\<close>

definition get_gl_tex_format :: "tex_format \<Rightarrow> nat \<Rightarrow> error + string" where
  "get_gl_tex_format texture_format num_channels =
     (case texture_format of
        FmtDtype d \<Rightarrow>
          (case texture_dtype_format d of
             None \<Rightarrow> Inl ValueError_tex_format
           | Some f \<Rightarrow> Inr (replace_r num_channels f))
      | FmtStr s \<Rightarrow> Inr (replace_r num_channels s)
      | FmtNone \<Rightarrow> Inl AttributeError)"

text \<open>
  \<^verbatim>\<open>GPUScaledTextureMixin._get_texture_format_for_data\<close>. When
  \<^verbatim>\<open>internalformat\<close> is \<^verbatim>\<open>None\<close> the local \<^verbatim>\<open>texture_format\<close> is read before
  it is bound.
\<close>

definition get_texture_format_for_data ::
  "ndarray option \<Rightarrow> string option \<Rightarrow> tex_format \<Rightarrow> texture \<Rightarrow> (error + string) \<times> texture" where
  "get_texture_format_for_data data format internalformat t =
     (if internalformat \<noteq> FmtNone then
        (let num_channels = data_num_channels t data format;
             (texture_format, t') = handle_auto_texture_format internalformat data t
         in (get_gl_tex_format texture_format num_channels, t'))
      else (Inl UnboundLocalError, t))"

text \<open>
  \<^verbatim>\<open>_ScaledTextureMixin.init_scaling_texture\<close> as the GPU classes run it: the data is
  replaced by the representative array before the format is looked up.
\<close>

definition gpu_init_scaling_texture ::
  "ndarray option \<Rightarrow> string option \<Rightarrow> tex_format \<Rightarrow> texture
     \<Rightarrow> (error + ndarray \<times> string) \<times> texture" where
  "gpu_init_scaling_texture data format internalformat t =
     (let t1 = t\<lparr>tex_data_dtype := map_option arr_dtype data\<rparr>;
          rep = create_rep_array t1 data format
      in case get_texture_format_for_data (Some rep) format internalformat t1 of
           (Inl e, t2) \<Rightarrow> (Inl e, t2)
         | (Inr f, t2) \<Rightarrow> (Inr (rep, f), t2))"

text \<open>
  The object as Python creates it, before any \<^verbatim>\<open>__init__\<close> has run: the class
  attribute \<^verbatim>\<open>_auto_texture_format\<close> is \<^verbatim>\<open>False\<close>.
\<close>

definition new_texture :: "nat \<Rightarrow> texture" where
  "new_texture n =
     \<lparr>tex_ndim = n, tex_clim = None, tex_data_dtype = None, tex_data_limits = None,
      tex_auto_texture_format = False, tex_internalformat = None, tex_shape = [],
      tex_uploads = [], tex_warnings = []\<rparr>"

text \<open>
  The underlying texture belongs to \<^verbatim>\<open>vispy.gloo\<close>. The model keeps what the mixins
  hand to it: its constructor and \<^verbatim>\<open>_resize\<close> record the shape and the internal
  format, \<^verbatim>\<open>set_data\<close> records the buffer.
\<close>

definition texture_resize :: "nat list \<Rightarrow> string \<Rightarrow> texture \<Rightarrow> texture" where
  "texture_resize shp internalformat t =
     t\<lparr>tex_shape := shp, tex_internalformat := Some internalformat\<rparr>"

definition texture_set_data :: "ndarray \<Rightarrow> texture \<Rightarrow> texture" where
  "texture_set_data data t = t\<lparr>tex_uploads := tex_uploads t @ [data]\<rparr>"

text \<open>
  \<^verbatim>\<open>GPUScaledTexture2D(data, format=..., internalformat=...)\<close> and its 3-D sibling:
  \<^verbatim>\<open>_ScaledTextureMixin.__init__\<close> followed by the constructor of the underlying
  texture on the representative array.
\<close>

definition gpu_texture_init ::
  "nat \<Rightarrow> ndarray option \<Rightarrow> string option \<Rightarrow> tex_format \<Rightarrow> (error + unit) \<times> texture" where
  "gpu_texture_init n data format internalformat =
     (let t = (new_texture n)\<lparr>tex_clim := None, tex_data_dtype := None\<rparr>
      in case gpu_init_scaling_texture data format internalformat t of
           (Inl e, t') \<Rightarrow> (Inl e, t')
         | (Inr (rep, f), t') \<Rightarrow>
             (Inr (), texture_set_data rep (texture_resize (arr_shape rep) f t')))"

text \<open>\<^verbatim>\<open>GPUScaledTextureMixin._internalformat_will_change\<close>.\<close>

definition internalformat_will_change :: "ndarray \<Rightarrow> texture \<Rightarrow> error + bool" where
  "internalformat_will_change data t =
     (let shape_repr = create_rep_array t (Some data) None
      in case get_gl_tex_format (FmtDtype (arr_dtype data)) (last (arr_shape shape_repr)) of
           Inl e \<Rightarrow> Inl e
         | Inr new_if \<Rightarrow> Inr (Some new_if \<noteq> tex_internalformat t))"

text \<open>\<^verbatim>\<open>GPUScaledTextureMixin._reformat_if_necessary\<close>.\<close>

definition reformat_if_necessary :: "ndarray \<Rightarrow> texture \<Rightarrow> (error + unit) \<times> texture" where
  "reformat_if_necessary data t =
     (case internalformat_will_change data t of
        Inl e \<Rightarrow> (Inl e, t)
      | Inr False \<Rightarrow> (Inr (), t)
      | Inr True \<Rightarrow>
          if tex_auto_texture_format t then
            (let shape_repr = create_rep_array t (Some data) None
             in case get_gl_tex_format (FmtDtype (arr_dtype data)) (last (arr_shape shape_repr)) of
                  Inl e \<Rightarrow> (Inl e, t)
                | Inr internalformat \<Rightarrow>
                    (Inr (), texture_resize (arr_shape data) internalformat t))
          else (Inl RuntimeError_format_locked, t))"

text \<open>The format that data resolves to: what \<^verbatim>\<open>_internalformat_will_change\<close> compares.\<close>

definition resolved_format :: "ndarray \<Rightarrow> texture \<Rightarrow> error + string" where
  "resolved_format data t =
     get_gl_tex_format (FmtDtype (arr_dtype data)) (data_num_channels t (Some data) None)"

text \<open>Sample arrays: a 2 x 2 image of 32-bit floats and one of 16-bit unsigned integers.\<close>

definition img_f32 :: ndarray where
  "img_f32 = \<lparr>arr_dtype = Float32, arr_shape = [2, 2], arr_elems = [0, 1, 2, 3]\<rparr>"

definition img_u16 :: ndarray where
  "img_u16 = \<lparr>arr_dtype = UInt16, arr_shape = [2, 2], arr_elems = [7, 9, 300, 40000]\<rparr>"

text \<open>A GPU texture of rank 2 whose storage format is \<^verbatim>\<open>r32f\<close>.\<close>

definition tex_r32f :: texture where
  "tex_r32f = (new_texture 2)\<lparr>tex_internalformat := Some ''r32f'', tex_shape := [2, 2, 1]\<rparr>"

section \<open>Default limits and the GPU strategy's \<^verbatim>\<open>_compute_clim\<close>\<close>

text \<open>\<^verbatim>\<open>_ScaledTextureMixin._get_default_clims\<close>.\<close>

definition get_default_clims :: "ndarray \<Rightarrow> error + real \<times> real" where
  "get_default_clims data =
     (if is_floating (arr_dtype data) then Inr (0, 1)
      else case iinfo (arr_dtype data) of
             Inl e \<Rightarrow> Inl e
           | Inr (dmin, dmax) \<Rightarrow> Inr (of_int dmin, of_int dmax))"

text \<open>
  The first branch of both \<^verbatim>\<open>_compute_clim\<close> and the CPU upload: with \<^verbatim>\<open>'auto'\<close>
  the limits are the minimum and maximum of the data; then both limits are converted
  with \<^verbatim>\<open>np.float32\<close>. Subscripting \<^verbatim>\<open>None\<close> is a \<^verbatim>\<open>TypeError\<close>.
\<close>

definition single_channel_clim :: "clim option \<Rightarrow> ndarray \<Rightarrow> error + real \<times> real" where
  "single_channel_clim clim data =
     (case clim of
        Some Auto \<Rightarrow>
          (case np_min data of
             Inl e \<Rightarrow> Inl e
           | Inr lo \<Rightarrow> (case np_max data of Inl e \<Rightarrow> Inl e | Inr hi \<Rightarrow> Inr (f32 lo, f32 hi)))
      | Some (Range lo hi) \<Rightarrow> Inr (f32 lo, f32 hi)
      | None \<Rightarrow> Inl TypeError)"

text \<open>
  \<^verbatim>\<open>GPUScaledTextureMixin._compute_clim\<close>. The test of the first branch is
  \<^verbatim>\<open>data.ndim == 2 or data.shape[2] == 1\<close>, whatever the rank of the texture.
\<close>

definition gpu_compute_clim :: "ndarray \<Rightarrow> texture \<Rightarrow> error + clim option" where
  "gpu_compute_clim data t =
     (case ndim_or_unit_axis 2 data of
        Inl e \<Rightarrow> Inl e
      | Inr True \<Rightarrow>
          (case single_channel_clim (tex_clim t) data of
             Inl e \<Rightarrow> Inl e
           | Inr (lo, hi) \<Rightarrow> Inr (Some (Range lo hi)))
      | Inr False \<Rightarrow>
          if tex_clim t = Some Auto then
            (case get_default_clims data of
               Inl e \<Rightarrow> Inl e
             | Inr (lo, hi) \<Rightarrow> Inr (Some (Range lo hi)))
          else Inr (tex_clim t))"

section \<open>CPU strategy: scaling and upload\<close>

text \<open>
  The arithmetic of \<^verbatim>\<open>_scale_data_on_cpu\<close> on the array it works on. The limits are
  32-bit float scalars, so their difference is rounded to 32 bits.
\<close>

definition scale_in_place :: "real \<times> real \<Rightarrow> ndarray \<Rightarrow> error + ndarray" where
  "scale_in_place clim a =
     (if fst clim = snd clim then
        (if fst clim \<noteq> 0 then idiv (fst clim) a else Inr a)
      else
        (case isub (fst clim) a of
           Inl e \<Rightarrow> Inl e
         | Inr a' \<Rightarrow> idiv (f32 (snd clim - fst clim)) a'))"

text \<open>
  What \<^verbatim>\<open>_scale_data_on_cpu\<close> does once it holds the array \<open>q\<close> to work on: scale it
  in place, then convert it to a new array if \<^verbatim>\<open>should_cast_to_f32\<close> says so.
\<close>

definition scale_and_cast ::
  "(dtype \<Rightarrow> bool) \<Rightarrow> nat \<Rightarrow> real \<times> real \<Rightarrow> heap \<Rightarrow> (error + nat) \<times> heap" where
  "scale_and_cast should_cast_to_f32 q clim h =
     (case scale_in_place clim (h ! q) of
        Inl e \<Rightarrow> (Inl e, h)
      | Inr a \<Rightarrow>
          (let h' = h[q := a]
           in if should_cast_to_f32 (arr_dtype a)
              then (let (r, h'') = alloc (astype_float32 a) h' in (Inr r, h''))
              else (Inr q, h')))"

text \<open>
  \<^verbatim>\<open>CPUScaledTextureMixIn._scale_data_on_cpu(data, clim, copy)\<close>. \<open>p\<close> is the
  reference to \<open>data\<close>; the result is the reference the method returns.
  \<^verbatim>\<open>should_cast_to_f32\<close> is imported from \<^verbatim>\<open>vispy.gloo.texture\<close> and is a parameter
  here.
\<close>

definition scale_data_on_cpu ::
  "(dtype \<Rightarrow> bool) \<Rightarrow> nat \<Rightarrow> real \<times> real \<Rightarrow> bool \<Rightarrow> heap \<Rightarrow> (error + nat) \<times> heap" where
  "scale_data_on_cpu should_cast_to_f32 p clim copy h =
     (if copy then
        (let (q, h') = alloc (astype_float32 (h ! p)) h
         in scale_and_cast should_cast_to_f32 q clim h')
      else if \<not> is_floating (arr_dtype (h ! p)) then (Inl ValueError_no_copy, h)
      else scale_and_cast should_cast_to_f32 p clim h)"

text \<open>
  \<^verbatim>\<open>CPUScaledTextureMixIn.scale_and_set_data(data, offset, copy)\<close>: upload new data,
  scaling if necessary. The outcome comes with the heap and the texture as the call
  leaves them.
\<close>

definition cpu_scale_and_set_data ::
  "(dtype \<Rightarrow> bool) \<Rightarrow> nat \<Rightarrow> bool \<Rightarrow> heap \<times> texture \<Rightarrow> (error + unit) \<times> heap \<times> texture" where
  "cpu_scale_and_set_data should_cast_to_f32 p copy ht =
     (let h = fst ht;
          data = h ! p;
          t = (snd ht)\<lparr>tex_data_dtype := Some (arr_dtype data)\<rparr>
      in case ndim_or_unit_axis (tex_ndim t) data of
           Inl e \<Rightarrow> (Inl e, h, t)
         | Inr True \<Rightarrow>
             (case single_channel_clim (tex_clim t) data of
                Inl e \<Rightarrow> (Inl e, h, t)
              | Inr clim \<Rightarrow>
                  (case scale_data_on_cpu should_cast_to_f32 p clim copy h of
                     (Inl e, h') \<Rightarrow> (Inl e, h', t)
                   | (Inr q, h') \<Rightarrow>
                       (Inr (), h',
                        texture_set_data (h' ! q)
                          (t\<lparr>tex_clim := Some (Range (fst clim) (snd clim)),
                            tex_data_limits := Some clim\<rparr>))))
         | Inr False \<Rightarrow>
             (case get_default_clims data of
                Inl e \<Rightarrow> (Inl e, h, t)
              | Inr data_limits \<Rightarrow>
                  (Inr (), h,
                   texture_set_data data
                     (t\<lparr>tex_clim := (if tex_clim t = Some Auto
                                       then Some (Range (fst data_limits) (snd data_limits))
                                       else tex_clim t),
                       tex_data_limits := Some data_limits\<rparr>))))"


text \<open>
  A sample \<^verbatim>\<open>should_cast_to_f32\<close>: true for floats wider than 32 bits.
\<close>

definition cast_wide_floats :: "dtype \<Rightarrow> bool" where
  "cast_wide_floats d = (d = Float64)"

text \<open>
  More sample data: a 1 x 1 image of 64-bit floats whose only value, \<open>2^24 + 1\<close>, is
  not a 32-bit float; a constant 2 x 2 image; a 2 x 2 x 2 volume; and textures of rank
  3 and of rank 2 with colour limits \<^verbatim>\<open>'auto'\<close>.
\<close>

definition img_f64 :: ndarray where
  "img_f64 = \<lparr>arr_dtype = Float64, arr_shape = [1, 1], arr_elems = [16777217]\<rparr>"

definition img_const :: ndarray where
  "img_const = \<lparr>arr_dtype = Float32, arr_shape = [2, 2], arr_elems = [5, 5, 5, 5]\<rparr>"

definition vol_f32 :: ndarray where
  "vol_f32 = \<lparr>arr_dtype = Float32, arr_shape = [2, 2, 2],
              arr_elems = [2, 3, 4, 5, 6, 7, 8, 9]\<rparr>"

definition tex_auto3 :: texture where
  "tex_auto3 = (new_texture 3)\<lparr>tex_clim := Some Auto\<rparr>"

text \<open>A 1 x 2 RGB image of 8-bit unsigned integers.\<close>

definition img_rgb8 :: ndarray where
  "img_rgb8 = \<lparr>arr_dtype = UInt8, arr_shape = [1, 2, 3],
               arr_elems = [10, 20, 30, 40, 50, 60]\<rparr>"

section \<open>Properties of \<^verbatim>\<open>set_clim\<close>\<close>

text \<open>
  C5, as the code has it. \<^verbatim>\<open>set_clim\<close> answers whether a texture upload is needed:
  in the shared mixin the answer is true exactly when the new value is \<^verbatim>\<open>'auto'\<close>;
  in the CPU strategy it is true exactly when the new value is \<^verbatim>\<open>'auto'\<close> or a
  pair that falls outside the data limits recorded by the last upload. The previous
  value of the colour limits plays no part.
\<close>

theorem set_clim_need_upload:
  "(fst (set_clim c t) = Inr b \<longrightarrow> b = (c = Str ''auto'')) \<and>
   (fst (cpu_set_clim c t) = Inr b \<longrightarrow>
      b = (c = Str ''auto'' \<or>
           (\<exists>cmin cmax. c = Seq [cmin, cmax] \<and> clim_outside_data_limits cmin cmax t)))"
  by (auto simp: set_clim_def cpu_set_clim_def split: clim_arg.splits list.splits if_splits)

theorem set_clim_need_upload_witness:
  "fst (set_clim (Str ''auto'') tex_auto2) = Inr True \<and>
   fst (cpu_set_clim (Seq [0, 1]) (tex_auto2\<lparr>tex_data_limits := Some (0, 1)\<rparr>)) = Inr False \<and>
   fst (cpu_set_clim (Seq [0, 2]) (tex_auto2\<lparr>tex_data_limits := Some (0, 1)\<rparr>)) = Inr True"
  using set_clim_need_upload [of "Str ''auto''" tex_auto2 True]
    set_clim_need_upload [of "Seq [0, 1]" "tex_auto2\<lparr>tex_data_limits := Some (0, 1)\<rparr>" False]
    set_clim_need_upload [of "Seq [0, 2]" "tex_auto2\<lparr>tex_data_limits := Some (0, 1)\<rparr>" True]
  by (simp add: set_clim_def cpu_set_clim_def clim_outside_data_limits_def tex_auto2_def)

text \<open>
  C5, as the specification states it, fails: the colour limits of \<open>tex_auto2\<close> are
  \<^verbatim>\<open>'auto'\<close>, and setting them to the pair (0, 1) returns false in both strategies.
\<close>

theorem set_clim_was_auto_counterexample:
  "tex_clim tex_auto2 = Some Auto \<and>
   fst (set_clim (Seq [0, 1]) tex_auto2) = Inr False \<and>
   fst (cpu_set_clim (Seq [0, 1]) tex_auto2) = Inr False"
  by (simp add: set_clim_def cpu_set_clim_def clim_outside_data_limits_def tex_auto2_def)

text \<open>
  C8. For an invalid range (a string other than \<^verbatim>\<open>"auto"\<close>, or a value that does not
  unpack into exactly two elements), \<^verbatim>\<open>set_clim\<close> raises \<^verbatim>\<open>ValueError\<close> in the shared
  mixin and in the CPU override, and the texture is left exactly as it was.
\<close>

theorem set_clim_invalid_atomic:
  "invalid_range_spec c \<Longrightarrow>
   (\<exists>e. (e = ValueError_clim_str \<or> e = ValueError_clim_two) \<and>
        set_clim c t = (Inl e, t) \<and> cpu_set_clim c t = (Inl e, t))"
  by (auto simp: invalid_range_spec_def set_clim_def cpu_set_clim_def
           split: clim_arg.splits list.splits)

theorem set_clim_invalid_atomic_witness:
  "invalid_range_spec (Str ''bogus'') \<and> invalid_range_spec (Seq [1, 2, 3]) \<and>
   set_clim (Str ''bogus'') tex_auto2 = (Inl ValueError_clim_str, tex_auto2) \<and>
   cpu_set_clim (Seq [1, 2, 3]) tex_auto2 = (Inl ValueError_clim_two, tex_auto2)"
  using set_clim_invalid_atomic [of "Str ''bogus''" tex_auto2]
    set_clim_invalid_atomic [of "Seq [1, 2, 3]" tex_auto2]
  by (simp add: invalid_range_spec_def set_clim_def cpu_set_clim_def)

text \<open>
  C9. While no upload has recorded data limits (\<^verbatim>\<open>_data_limits\<close> is \<^verbatim>\<open>None\<close>), the
  CPU strategy's \<^verbatim>\<open>set_clim\<close> returns false for every pair of numbers.
\<close>

theorem cpu_set_clim_no_data_limits:
  "tex_data_limits t = None \<Longrightarrow> fst (cpu_set_clim (Seq [cmin, cmax]) t) = Inr False"
  by (simp add: cpu_set_clim_def clim_outside_data_limits_def)

theorem cpu_set_clim_no_data_limits_witness:
  "tex_data_limits tex_auto2 = None \<and>
   fst (cpu_set_clim (Seq [-5, 7]) tex_auto2) = Inr False"
  using cpu_set_clim_no_data_limits [of tex_auto2 "-5" 7]
  by (simp add: tex_auto2_def)

section \<open>Properties of the GPU strategy's format handling\<close>

lemma last_rep_shape:
  "last (arr_shape (create_rep_array t data format)) = data_num_channels t data format"
  by (simp add: create_rep_array_def Let_def)

text \<open>
  C1, on the code. Constructing a GPU texture with the format \<^verbatim>\<open>'auto'\<close> and no data
  issues no warning and does decide a format: the constructor hands the representative
  array, never \<^verbatim>\<open>None\<close>, to the format lookup, so the format becomes \<^verbatim>\<open>rgba32f\<close>
  and automatic format changes are switched on. Called with no data at all, the lookup
  does warn, and then raises \<^verbatim>\<open>AttributeError\<close> on \<^verbatim>\<open>None.replace\<close>.
\<close>

theorem gpu_auto_without_data:
  "fst (gpu_texture_init 2 None None (FmtStr ''auto'')) = Inr () \<and>
   tex_warnings (snd (gpu_texture_init 2 None None (FmtStr ''auto''))) = [] \<and>
   tex_internalformat (snd (gpu_texture_init 2 None None (FmtStr ''auto''))) = Some ''rgba32f'' \<and>
   tex_auto_texture_format (snd (gpu_texture_init 2 None None (FmtStr ''auto''))) \<and>
   get_texture_format_for_data None None (FmtStr ''auto'') (new_texture 2) =
     (Inl AttributeError, (new_texture 2)\<lparr>tex_warnings := [Warn_auto_without_data]\<rparr>)"
  by (simp add: gpu_texture_init_def gpu_init_scaling_texture_def get_texture_format_for_data_def
      handle_auto_texture_format_def get_gl_tex_format_def texture_dtype_format_def replace_r_def
      data_num_channels_def create_rep_array_def new_texture_def texture_resize_def
      texture_set_data_def Let_def)

text \<open>
  C6. For data whose format resolves, \<^verbatim>\<open>_reformat_if_necessary\<close> does nothing when
  the resolved format is the texture's current internal format; when it differs, the
  texture is resized to the data's shape with the new format if
  \<^verbatim>\<open>_auto_texture_format\<close> is set, and otherwise \<^verbatim>\<open>RuntimeError\<close> is raised and
  the texture is left as it was.
\<close>

theorem reformat_if_necessary_cases:
  assumes "resolved_format data t = Inr new_if"
  shows "(Some new_if = tex_internalformat t \<longrightarrow> reformat_if_necessary data t = (Inr (), t)) \<and>
         (Some new_if \<noteq> tex_internalformat t \<and> tex_auto_texture_format t \<longrightarrow>
            reformat_if_necessary data t = (Inr (), texture_resize (arr_shape data) new_if t)) \<and>
         (Some new_if \<noteq> tex_internalformat t \<and> \<not> tex_auto_texture_format t \<longrightarrow>
            reformat_if_necessary data t = (Inl RuntimeError_format_locked, t))"
  using assms
  by (simp add: reformat_if_necessary_def internalformat_will_change_def resolved_format_def
      last_rep_shape Let_def)

theorem reformat_if_necessary_cases_witness:
  "resolved_format img_f32 tex_r32f = Inr ''r32f'' \<and>
   resolved_format img_u16 tex_r32f = Inr ''r16'' \<and>
   reformat_if_necessary img_f32 tex_r32f = (Inr (), tex_r32f) \<and>
   reformat_if_necessary img_u16 (tex_r32f\<lparr>tex_auto_texture_format := True\<rparr>) =
     (Inr (), texture_resize [2, 2] ''r16'' (tex_r32f\<lparr>tex_auto_texture_format := True\<rparr>)) \<and>
   reformat_if_necessary img_u16 tex_r32f = (Inl RuntimeError_format_locked, tex_r32f)"
proof -
  have f: "resolved_format img_f32 tex_r32f = Inr ''r32f''"
    by (simp add: resolved_format_def get_gl_tex_format_def texture_dtype_format_def
        replace_r_def data_num_channels_def img_f32_def tex_r32f_def new_texture_def)
  have u: "resolved_format img_u16 tex_r32f = Inr ''r16''"
    by (simp add: resolved_format_def get_gl_tex_format_def texture_dtype_format_def
        replace_r_def data_num_channels_def img_u16_def tex_r32f_def new_texture_def)
  have u': "resolved_format img_u16 (tex_r32f\<lparr>tex_auto_texture_format := True\<rparr>) = Inr ''r16''"
    by (simp add: resolved_format_def get_gl_tex_format_def texture_dtype_format_def
        replace_r_def data_num_channels_def img_u16_def tex_r32f_def new_texture_def)
  have s: "arr_shape img_u16 = [2, 2]" "tex_internalformat tex_r32f = Some ''r32f''"
    "\<not> tex_auto_texture_format tex_r32f"
    by (simp_all add: img_u16_def tex_r32f_def new_texture_def)
  show ?thesis
    using reformat_if_necessary_cases [OF f] reformat_if_necessary_cases [OF u]
      reformat_if_necessary_cases [OF u'] f u s
    by simp
qed

text \<open>
  Data resolves to a format exactly when its element type is in the table; for any
  other element type the comparison itself raises, whatever the flag.
\<close>

lemma resolved_format_iff:
  "(\<exists>f. resolved_format data t = Inr f) \<longleftrightarrow> texture_dtype_format (arr_dtype data) \<noteq> None"
  by (auto simp: resolved_format_def get_gl_tex_format_def split: option.splits)

lemma reformat_unsupported_dtype:
  "texture_dtype_format (arr_dtype data) = None \<Longrightarrow>
   reformat_if_necessary data t = (Inl ValueError_tex_format, t)"
  by (simp add: reformat_if_necessary_def internalformat_will_change_def get_gl_tex_format_def
      Let_def)

section \<open>Floating-point rounding: lemmas\<close>




lemmas float_eval = round_to_prec_def round_half_even_def float_exponent_def compute_floorlog
  pow2_def Let_def f32_def f64_def

lemma f32_0: "f32 0 = 0" by (simp add: float_eval)






lemma f32_evals:
  "f32 2 = 2" "f32 3 = 3" "f32 5 = 5" "f32 9 = 9" "f32 (1 / 2) = 1 / 2" "f32 (3 / 2) = 3 / 2"
  "f32 16777217 = 16777216" "f64 16777217 = 16777217"
  by (simp_all add: float_eval)

section \<open>Properties of the CPU strategy\<close>

lemma scale_copy:
  "scale_data_on_cpu sc p clim True h =
     (case scale_in_place clim (astype_float32 (h ! p)) of
        Inl e \<Rightarrow> (Inl e, h @ [astype_float32 (h ! p)])
      | Inr a \<Rightarrow> if sc (arr_dtype a) then (Inr (Suc (length h)), h @ [a, astype_float32 a])
                 else (Inr (length h), h @ [a]))"
  by (simp add: scale_data_on_cpu_def scale_and_cast_def alloc_def Let_def split: sum.splits)

lemma scale_in_place_f32:
  "arr_dtype a = Float32 \<Longrightarrow> \<exists>b. scale_in_place clim a = Inr b \<and> arr_dtype b = Float32 \<and> arr_shape b = arr_shape a"
  by (simp add: scale_in_place_def isub_def idiv_def is_floating_def)

lemma scale_in_place_floating:
  "is_floating (arr_dtype a) \<Longrightarrow> \<exists>b. scale_in_place clim a = Inr b \<and> arr_dtype b = arr_dtype a"
  by (simp add: scale_in_place_def isub_def idiv_def)


lemma scale_no_copy:
  "is_floating (arr_dtype (h ! p)) \<Longrightarrow>
   scale_data_on_cpu sc p clim False h =
     (case scale_in_place clim (h ! p) of
        Inl e \<Rightarrow> (Inl e, h)
      | Inr a \<Rightarrow> if sc (arr_dtype a) then (Inr (length h), h[p := a] @ [astype_float32 a])
                 else (Inr p, h[p := a]))"
  by (simp add: scale_data_on_cpu_def scale_and_cast_def alloc_def Let_def split: sum.splits)

lemma scale_ok:
  assumes "copy \<or> is_floating (arr_dtype (h ! p))"
  shows "\<exists>q h'. scale_data_on_cpu sc p clim copy h = (Inr q, h')"
proof (cases copy)
  case True
  obtain b where "scale_in_place clim (astype_float32 (h ! p)) = Inr b"
    using scale_in_place_f32 [of "astype_float32 (h ! p)" clim]
    by (auto simp: astype_float32_def)
  then show ?thesis using True by (simp add: scale_copy)
next
  case False
  then have fl: "is_floating (arr_dtype (h ! p))" using assms by simp
  then obtain b where "scale_in_place clim (h ! p) = Inr b"
    using scale_in_place_floating by blast
  then show ?thesis using False fl by (simp add: scale_no_copy)
qed

lemma cpu_upload_single:
  assumes "ndim_or_unit_axis (tex_ndim t) (h ! p) = Inr True"
    and "single_channel_clim (tex_clim t) (h ! p) = Inr clim"
    and "copy \<or> is_floating (arr_dtype (h ! p))"
  shows "\<exists>h' t'. cpu_scale_and_set_data sc p copy (h, t) = (Inr (), h', t') \<and>
           tex_data_limits t' = Some clim \<and> tex_clim t' = Some (Range (fst clim) (snd clim))"
proof -
  obtain q h' where "scale_data_on_cpu sc p clim copy h = (Inr q, h')"
    using scale_ok [OF assms(3)] by blast
  then show ?thesis
    using assms(1,2)
    by (simp add: cpu_scale_and_set_data_def Let_def texture_set_data_def)
qed

lemma single_channel_clim_auto:
  "arr_elems d \<noteq> [] \<Longrightarrow>
   single_channel_clim (Some Auto) d =
     Inr (f32 (Min (set (arr_elems d))), f32 (Max (set (arr_elems d))))"
  by (simp add: single_channel_clim_def np_min_def np_max_def)


lemma sample_single:
  "ndim_or_unit_axis (tex_ndim tex_auto2) img_f32 = Inr True"
  "ndim_or_unit_axis (tex_ndim tex_auto2) img_f64 = Inr True"
  "ndim_or_unit_axis (tex_ndim tex_auto2) img_const = Inr True"
  "ndim_or_unit_axis (tex_ndim tex_auto3) vol_f32 = Inr True"
  by (simp_all add: ndim_or_unit_axis_def tex_auto2_def tex_auto3_def new_texture_def
      img_f32_def img_f64_def img_const_def vol_f32_def)

lemma sample_clim:
  "single_channel_clim (tex_clim tex_auto2) img_f32 = Inr (0, 3)"
  "single_channel_clim (tex_clim tex_auto2) img_f64 = Inr (16777216, 16777216)"
  "single_channel_clim (tex_clim tex_auto2) img_const = Inr (5, 5)"
  "single_channel_clim (tex_clim tex_auto3) vol_f32 = Inr (2, 9)"
  by (simp_all add: single_channel_clim_def np_min_def np_max_def tex_auto2_def tex_auto3_def
      new_texture_def img_f32_def img_f64_def img_const_def vol_f32_def f32_evals f32_0)

text \<open>
  C10. With \<^verbatim>\<open>copy=True\<close>, \<^verbatim>\<open>_scale_data_on_cpu\<close> never raises; every array that
  existed before the call, the caller's among them, is unchanged after it; and the array
  it returns is a new one whose element type is \<^verbatim>\<open>float32\<close>, for every element type
  of the input, every pair of limits and every \<^verbatim>\<open>should_cast_to_f32\<close>.
\<close>

theorem scale_copy_keeps_input:
  assumes "p < length h"
  shows "\<exists>q h'. scale_data_on_cpu sc p clim True h = (Inr q, h') \<and>
           take (length h) h' = h \<and> h' ! p = h ! p \<and>
           length h \<le> q \<and> q < length h' \<and> arr_dtype (h' ! q) = Float32"
proof -
  obtain b where b: "scale_in_place clim (astype_float32 (h ! p)) = Inr b" "arr_dtype b = Float32"
    using scale_in_place_f32 [of "astype_float32 (h ! p)" clim]
    by (auto simp: astype_float32_def)
  show ?thesis
    using assms b by (simp add: scale_copy nth_append astype_float32_def)
qed

text \<open>C10 at an image of 16-bit unsigned integers with the limits (7, 40000).\<close>

theorem scale_copy_keeps_input_witness:
  "0 < length [img_u16] \<and>
   (\<exists>q h'. scale_data_on_cpu cast_wide_floats 0 (7, 40000) True [img_u16] = (Inr q, h') \<and>
      h' ! 0 = img_u16 \<and> arr_dtype (h' ! q) = Float32)"
  using scale_copy_keeps_input [of 0 "[img_u16]" cast_wide_floats "(7, 40000)"]
  by auto










section \<open>The GPU strategy's \<^verbatim>\<open>_compute_clim\<close> on volumes\<close>

text \<open>
  On images the test of \<^verbatim>\<open>_compute_clim\<close> is the right one: single-channel data
  with \<^verbatim>\<open>'auto'\<close> limits gets its minimum and maximum as 32-bit floats, multi-channel
  data the default limits of its element type.
\<close>

lemma gpu_compute_clim_image_single:
  assumes "ndim_or_unit_axis 2 d = Inr True" "tex_clim t = Some Auto" "arr_elems d \<noteq> []"
  shows "gpu_compute_clim d t =
           Inr (Some (Range (f32 (Min (set (arr_elems d)))) (f32 (Max (set (arr_elems d))))))"
  using assms by (simp add: gpu_compute_clim_def single_channel_clim_auto)

lemma gpu_compute_clim_image_multi:
  assumes "ndim_or_unit_axis 2 d = Inr False" "tex_clim t = Some Auto"
  shows "gpu_compute_clim d t =
           (case get_default_clims d of Inl e \<Rightarrow> Inl e | Inr (lo, hi) \<Rightarrow> Inr (Some (Range lo hi)))"
  using assms by (simp add: gpu_compute_clim_def)

lemma gpu_compute_clim_rgb8:
  "gpu_compute_clim img_rgb8 tex_auto2 = Inr (Some (Range 0 255))"
  by (simp add: gpu_compute_clim_def ndim_or_unit_axis_def get_default_clims_def iinfo_def
      is_floating_def img_rgb8_def tex_auto2_def)

text \<open>
  C2, on the code. For a texture of rank 3 with \<^verbatim>\<open>'auto'\<close> limits and a
  single-channel volume of shape 2 x 2 x 2 with values from 2 to 9, the GPU strategy's
  \<^verbatim>\<open>_compute_clim\<close> takes the volume for multi-channel data (its rank is not 2 and
  its third axis is not 1) and returns the default limits (0, 1); the CPU strategy,
  which tests against the texture's rank, records (2, 9) for the same volume.
\<close>

theorem gpu_compute_clim_volume:
  "tex_ndim tex_auto3 = 3 \<and> tex_clim tex_auto3 = Some Auto \<and>
   ndim_or_unit_axis (tex_ndim tex_auto3) vol_f32 = Inr True \<and>
   np_min vol_f32 = Inr 2 \<and> np_max vol_f32 = Inr 9 \<and>
   gpu_compute_clim vol_f32 tex_auto3 = Inr (Some (Range 0 1)) \<and>
   tex_data_limits (snd (snd (cpu_scale_and_set_data cast_wide_floats 0 True ([vol_f32], tex_auto3))))
     = Some (2, 9)"
proof -
  obtain h' t' where r:
    "cpu_scale_and_set_data cast_wide_floats 0 True ([vol_f32], tex_auto3) = (Inr (), h', t')"
    "tex_data_limits t' = Some (2, 9)"
    using cpu_upload_single [of tex_auto3 "[vol_f32]" 0 "(2, 9)" True cast_wide_floats]
    by (auto simp: sample_single sample_clim)
  have "gpu_compute_clim vol_f32 tex_auto3 = Inr (Some (Range 0 1))"
    by (simp add: gpu_compute_clim_def ndim_or_unit_axis_def get_default_clims_def
        is_floating_def vol_f32_def tex_auto3_def new_texture_def)
  moreover have "np_min vol_f32 = Inr 2" "np_max vol_f32 = Inr 9"
    by (simp_all add: np_min_def np_max_def vol_f32_def)
  moreover have "tex_ndim tex_auto3 = 3" "tex_clim tex_auto3 = Some Auto"
    by (simp_all add: tex_auto3_def new_texture_def)
  ultimately show ?thesis
    using r sample_single(4) by simp
qed

end
